theory Spec2Isabelle
  imports Complex_Main
begin

section \<open>The Seismic object of seismic.py\<close>

text \<open>
  A shallow embedding of the class \<open>Seismic\<close> of \<^verbatim>\<open>src/seismic.py\<close>.
  Python integers are \<open>int\<close>; Python and NumPy floating-point numbers are idealised
  as \<open>real\<close> (exact arithmetic, no rounding, no infinities, no NaN).
  Every exception that the Python code or NumPy raises is a value of \<open>error\<close>.
\<close>

subsection \<open>Errors, arrays and the NumPy functions that are used\<close>

datatype error = IndexError | ValueError | ZeroDivisionError

text \<open>
  A NumPy array is its shape together with its elements in row-major (C) order.
  \<open>np.asarray(data, dtype=dtype)\<close> has already been applied to the argument.
\<close>

record ndarray =
  shape :: "nat list"
  flat :: "real list"

definition wf_ndarray :: "ndarray \<Rightarrow> bool" where
  "wf_ndarray d \<longleftrightarrow> length (flat d) = prod_list (shape d)"

definition ndim :: "ndarray \<Rightarrow> nat" where
  "ndim d = length (shape d)"

text \<open>
  \<open>a.reshape(new)\<close>: the elements stay as they are, the shape is replaced; NumPy raises
  ValueError when the new shape does not hold exactly \<open>a.size\<close> elements.
\<close>

definition reshape :: "ndarray \<Rightarrow> nat list \<Rightarrow> error + ndarray" where
  "reshape d new =
     (if prod_list new = prod_list (shape d) then Inr (d\<lparr>shape := new\<rparr>)
      else Inl ValueError)"

text \<open>
  \<open>np.linspace(start, stop, num)\<close>: a negative \<open>num\<close> raises ValueError, \<open>num = 1\<close> gives
  \<open>[start]\<close>, otherwise \<open>num\<close> evenly spaced values from \<open>start\<close> to \<open>stop\<close>.
\<close>

definition linspace :: "real \<Rightarrow> real \<Rightarrow> int \<Rightarrow> error + real list" where
  "linspace start stop num =
     (if num < 0 then Inl ValueError
      else if num = 1 then Inr [start]
      else Inr (map (\<lambda>i. start + real i * ((stop - start) / real_of_int (num - 1)))
                  [0..<nat num]))"

text \<open>
  \<open>np.arange(start, stop, step)\<close>: the length is \<open>ceil((stop - start) / step)\<close>, not below
  zero, and element \<open>i\<close> is \<open>start + i * step\<close>; the division raises for a zero step.
\<close>

definition arange :: "real \<Rightarrow> real \<Rightarrow> real \<Rightarrow> error + real list" where
  "arange start stop step =
     (if step = 0 then Inl ZeroDivisionError
      else Inr (map (\<lambda>i. start + real i * step)
                  [0..<nat \<lceil>(stop - start) / step\<rceil>]))"

subsection \<open>The constructor\<close>

text \<open>
  The dictionary \<open>params\<close>: a key that is absent is \<open>None\<close>. Only the keys that
  \<open>__init__\<close> reads are fields.
\<close>

record params =
  p_header :: "string option"
  p_ntraces :: "int option"
  p_inlines :: "real list option"
  p_xlines :: "real list option"
  p_ninlines :: "int option"
  p_nxlines :: "int option"
  p_nsamples :: "int option"
  p_tstart :: "real option"
  p_dt :: "real option"

definition no_params :: params where
  "no_params = \<lparr>p_header = None, p_ntraces = None, p_inlines = None, p_xlines = None,
     p_ninlines = None, p_nxlines = None, p_nsamples = None, p_tstart = None, p_dt = None\<rparr>"

text \<open>\<open>params.get(key, default)\<close>.\<close>

definition get_or :: "'a option \<Rightarrow> 'a \<Rightarrow> 'a" where
  "get_or v dflt = (case v of None \<Rightarrow> dflt | Some x \<Rightarrow> x)"

text \<open>The attributes of a constructed object.\<close>

record seismic =
  data :: ndarray
  header :: string
  ntraces :: int
  inlines :: "real list"
  xlines :: "real list"
  ninlines :: int
  nxlines :: int
  nsamples :: int
  tstart :: real
  dt :: real
  tbasis :: "real list"

text \<open>The two lines that \<open>__init__\<close> can print.\<close>

datatype message = NsamplesChanged int | NxlinesChanged int

text \<open>
  Lines 37 to 42: a truthy \<open>nsamples\<close> that differs from the last axis is replaced by the
  length of the last axis, and the change is printed.
\<close>

definition resolve_nsamples :: "int \<Rightarrow> int \<Rightarrow> int \<times> message list" where
  "resolve_nsamples ns lastdim =
     (if ns \<noteq> 0 \<and> ns \<noteq> lastdim
      then (lastdim, if ns \<noteq> lastdim then [NsamplesChanged lastdim] else [])
      else (ns, []))"

text \<open>
  Lines 46 to 48. \<open>int(a / b)\<close> truncates the quotient; both operands are non-negative
  here, so it is \<open>a div b\<close>.
\<close>

definition resolve_ninlines :: "int \<Rightarrow> int \<Rightarrow> int \<Rightarrow> int" where
  "resolve_ninlines shape0 nin nx =
     (if nin = 1 then (if nx > 0 then shape0 div nx else nin) else nin)"

text \<open>
  Lines 51 to 55, reached when the resolved \<open>ninlines\<close> exceeds 1: the new \<open>nxlines\<close>
  and what is printed.
\<close>

definition resolve_nxlines :: "int \<Rightarrow> int \<Rightarrow> int \<Rightarrow> int \<times> message list" where
  "resolve_nxlines shape0 nin x =
     (let nx = shape0 div nin
      in (nx, if nx \<noteq> 0 \<and> x \<noteq> nx then [NxlinesChanged nx] else []))"

text \<open>
  Lines 58 to 63, with the array and the attributes \<open>ntraces\<close>, \<open>ninlines\<close>, \<open>nxlines\<close>
  and \<open>nsamples\<close> as resolved so far: default coordinates and the time basis.
\<close>

definition finish ::
  "ndarray \<Rightarrow> params \<Rightarrow> int \<Rightarrow> int \<Rightarrow> int \<Rightarrow> int \<Rightarrow> error + seismic" where
  "finish d p nt nin nx ns =
     (case (case p_inlines p of None \<Rightarrow> linspace 1 (real_of_int nin) nin | Some v \<Rightarrow> Inr v) of
        Inl e \<Rightarrow> Inl e
      | Inr il \<Rightarrow>
     (case (case p_xlines p of None \<Rightarrow> linspace 1 (real_of_int nx) nx | Some v \<Rightarrow> Inr v) of
        Inl e \<Rightarrow> Inl e
      | Inr xl \<Rightarrow>
     (case arange 0 (real_of_int ns * get_or (p_dt p) 0) (get_or (p_dt p) 0) of
        Inl e \<Rightarrow> Inl e
      | Inr tb \<Rightarrow>
          Inr \<lparr>data = d,
               header = get_or (p_header p) [],
               ntraces = nt,
               inlines = il, xlines = xl,
               ninlines = nin, nxlines = nx, nsamples = ns,
               tstart = get_or (p_tstart p) 0,
               dt = get_or (p_dt p) 0,
               tbasis = tb\<rparr>)))"

text \<open>
  \<open>Seismic.__init__\<close>: what is printed, and either the exception raised or the object.
  A zero-dimensional array has no \<open>shape[0]\<close>: line 28 raises IndexError.
\<close>

definition init :: "ndarray \<Rightarrow> params \<Rightarrow> message list \<times> (error + seismic)" where
  "init d p =
     (if shape d = [] then ([], Inl IndexError)
      else
        let shape0 = int (hd (shape d));
            lastdim = last (shape d);
            (ns, m1) = resolve_nsamples (get_or (p_nsamples p) (int lastdim)) (int lastdim);
            nt = get_or (p_ntraces p) shape0;
            x = get_or (p_nxlines p) 0;
            nin = resolve_ninlines shape0 (get_or (p_ninlines p) 1) x
        in if nin > 1
           then
             let (nx, m2) = resolve_nxlines shape0 nin x
             in (case reshape d [nat nin, nat nx, lastdim] of
                   Inl e \<Rightarrow> (m1 @ m2, Inl e)
                 | Inr d' \<Rightarrow> (m1 @ m2, finish d' p nt nin nx ns))
           else (m1, finish d p nt nin x ns))"

text \<open>The resolved inline count of a construction, as line 50 tests it.\<close>

definition resolved_ninlines :: "ndarray \<Rightarrow> params \<Rightarrow> int" where
  "resolved_ninlines d p =
     resolve_ninlines (int (hd (shape d))) (get_or (p_ninlines p) 1) (get_or (p_nxlines p) 0)"

text \<open>The resolved crossline count: line 52 when line 50 holds, the supplied one otherwise.\<close>

definition resolved_nxlines :: "ndarray \<Rightarrow> params \<Rightarrow> int" where
  "resolved_nxlines d p =
     (if resolved_ninlines d p > 1
      then fst (resolve_nxlines (int (hd (shape d))) (resolved_ninlines d p)
                  (get_or (p_nxlines p) 0))
      else get_or (p_nxlines p) 0)"

text \<open>The resolved sample count of lines 37 to 42.\<close>

definition resolved_nsamples :: "ndarray \<Rightarrow> params \<Rightarrow> int" where
  "resolved_nsamples d p =
     fst (resolve_nsamples (get_or (p_nsamples p) (int (last (shape d)))) (int (last (shape d))))"

subsection \<open>Geometry from the trace headers\<close>

text \<open>
  Lines 99 to 121 of \<open>Seismic.from_obspy\<close>. The modules \<open>utils\<close> and \<open>patterns\<close> are not
  part of the source at hand, so the three results of \<open>utils.get_pattern_from_stream\<close>
  (for the sawtooth, the monotonic and the stairstep pattern) are arguments; a pattern
  that was not found is the empty list.
\<close>

text \<open>\<open>np.any\<close>: some element is non-zero.\<close>

definition np_any :: "int list \<Rightarrow> bool" where
  "np_any xs = list_ex (\<lambda>x. x \<noteq> 0) xs"

text \<open>\<open>np.amax(xs) - np.amin(xs) + 1\<close>, used on non-empty lists only.\<close>

definition span :: "int list \<Rightarrow> int" where
  "span xs = Max (set xs) - Min (set xs) + 1"

text \<open>\<open>params.get(key) or derived\<close> for a count: an absent or zero value is falsy.\<close>

definition or_count :: "int option \<Rightarrow> int \<Rightarrow> int" where
  "or_count v derived = (case v of None \<Rightarrow> derived | Some x \<Rightarrow> if x \<noteq> 0 then x else derived)"

text \<open>The same for a list of coordinates: an absent or empty list is falsy.\<close>

definition or_coords :: "real list option \<Rightarrow> int list \<Rightarrow> real list" where
  "or_coords v derived =
     (case v of None \<Rightarrow> map real_of_int derived
      | Some xs \<Rightarrow> if xs \<noteq> [] then xs else map real_of_int derived)"

definition from_obspy_geometry ::
  "params \<Rightarrow> int list \<Rightarrow> int list \<Rightarrow> int list \<Rightarrow> params" where
  "from_obspy_geometry p sawtooth monotonic stairstep =
     (let threed = np_any sawtooth;
          p1 = (if np_any sawtooth
                then p\<lparr>p_nxlines := Some (or_count (p_nxlines p) (span sawtooth)),
                       p_xlines := Some (or_coords (p_xlines p) sawtooth)\<rparr>
                else if np_any monotonic
                then p\<lparr>p_nxlines := Some (or_count (p_nxlines p) (span monotonic)),
                       p_xlines := Some (or_coords (p_xlines p) monotonic)\<rparr>
                else p);
          p2 = p1\<lparr>p_ninlines := Some 1\<rparr>
      in if threed \<and> np_any stairstep
         then p2\<lparr>p_ninlines := Some (or_count (p_ninlines p2) (span stairstep)),
                 p_inlines := Some (or_coords (p_inlines p2) stairstep)\<rparr>
         else p2)"

subsection \<open>Ranges and lines\<close>

text \<open>\<open>xs[0], xs[-1]\<close>: both raise IndexError on an empty sequence.\<close>

definition endpoints :: "real list \<Rightarrow> error + real \<times> real" where
  "endpoints xs = (if xs = [] then Inl IndexError else Inr (hd xs, last xs))"

text \<open>\<open>str.lower\<close> on the characters \<open>A\<close> to \<open>Z\<close>; every other character is kept.\<close>

definition lower_char :: "char \<Rightarrow> char" where
  "lower_char c =
     (case map_of (zip ''ABCDEFGHIJKLMNOPQRSTUVWXYZ'' ''abcdefghijklmnopqrstuvwxyz'') c of
        None \<Rightarrow> c
      | Some l \<Rightarrow> l)"

definition lower :: "string \<Rightarrow> string" where
  "lower s = map lower_char s"

text \<open>
  \<open>Seismic.trace_range\<close>. \<open>direction.lower()[0]\<close> raises IndexError on the empty string.
  Line 80 evaluates the two ends of \<open>inlines\<close> and drops them; line 81 returns the ends
  of \<open>xlines\<close>.
\<close>

definition trace_range :: "seismic \<Rightarrow> string \<Rightarrow> error + real \<times> real" where
  "trace_range s direction =
     (if lower direction = [] then Inl IndexError
      else if hd (lower direction) = CHR ''x''
      then (case endpoints (inlines s) of
              Inl e \<Rightarrow> Inl e
            | Inr _ \<Rightarrow> endpoints (xlines s))
      else endpoints (xlines s))"

text \<open>The argument \<open>l\<close> of \<open>get_line\<close> is a Python \<open>int\<close> or a Python \<open>float\<close>.\<close>

datatype pynum = PyInt int | PyFloat real

text \<open>\<open>l < 1\<close>.\<close>

definition less_one :: "pynum \<Rightarrow> bool" where
  "less_one l = (case l of PyInt i \<Rightarrow> i < 1 | PyFloat r \<Rightarrow> r < 1)"

text \<open>\<open>l *= n\<close> for an \<open>int\<close> \<open>n\<close>: an \<open>int\<close> stays an \<open>int\<close>, a \<open>float\<close> stays a \<open>float\<close>.\<close>

definition imul :: "pynum \<Rightarrow> int \<Rightarrow> pynum" where
  "imul l n = (case l of PyInt i \<Rightarrow> PyInt (i * n) | PyFloat r \<Rightarrow> PyFloat (r * real_of_int n))"

text \<open>
  An index into an axis of length \<open>n\<close>. NumPy (1.12 and later) raises IndexError for every
  \<open>float\<close>, also for one with an integral value; an \<open>int\<close> counts from the end when it is
  negative and raises IndexError outside \<open>-n \<le> i < n\<close>.
\<close>

definition axis_index :: "pynum \<Rightarrow> nat \<Rightarrow> error + nat" where
  "axis_index l n =
     (case l of
        PyFloat r \<Rightarrow> Inl IndexError
      | PyInt i \<Rightarrow>
          if 0 \<le> i \<and> i < int n then Inr (nat i)
          else if - int n \<le> i \<and> i < 0 then Inr (nat (i + int n))
          else Inl IndexError)"

text \<open>\<open>a[i, :, :]\<close> and \<open>a[:, j, :]\<close> on the row-major elements.\<close>

definition take_axis0 :: "ndarray \<Rightarrow> nat \<Rightarrow> ndarray" where
  "take_axis0 a i =
     (let sz = prod_list (tl (shape a))
      in \<lparr>shape = tl (shape a), flat = take sz (drop (i * sz) (flat a))\<rparr>)"

definition take_axis1 :: "ndarray \<Rightarrow> nat \<Rightarrow> ndarray" where
  "take_axis1 a j =
     (let n1 = hd (tl (shape a)); sz = prod_list (tl (tl (shape a)))
      in \<lparr>shape = hd (shape a) # tl (tl (shape a)),
          flat = concat (map (\<lambda>i. take sz (drop ((i * n1 + j) * sz) (flat a)))
                           [0..<hd (shape a)])\<rparr>)"

text \<open>\<open>Seismic.get_line\<close>; \<open>direction\<close> is \<open>None\<close> or a string.\<close>

definition get_line :: "seismic \<Rightarrow> pynum \<Rightarrow> string option \<Rightarrow> error + ndarray" where
  "get_line s l direction =
     (if ndim (data s) < 3 then Inr (data s)
      else
        case (case direction of
                None \<Rightarrow> Inr True
              | Some dir \<Rightarrow> if lower dir = [] then Inl IndexError
                            else Inr (hd (lower dir) = CHR ''i'')) of
          Inl e \<Rightarrow> Inl e
        | Inr True \<Rightarrow>
            (case axis_index (if less_one l then imul l (ninlines s) else l)
                    (hd (shape (data s))) of
               Inl e \<Rightarrow> Inl e
             | Inr i \<Rightarrow> Inr (take_axis0 (data s) i))
        | Inr False \<Rightarrow>
            (case axis_index (if less_one l then imul l (nxlines s) else l)
                    (hd (tl (shape (data s)))) of
               Inl e \<Rightarrow> Inl e
             | Inr j \<Rightarrow> Inr (take_axis1 (data s) j)))"

subsection \<open>Bandwidth of a spectrum\<close>

text \<open>
  \<open>Seismic.spectrum\<close> from line 147 on. The window and the transform of lines 143 to 145
  are NumPy's: the magnitudes \<open>a\<close> and the frequency axis \<open>f\<close> that they produce are the
  arguments here. \<open>np.log10\<close> is the real logarithm; it models NumPy on positive
  magnitudes only (NumPy gives \<open>-inf\<close> at zero), and the theorems of the claims
  about the decibels of a spectrum are stated for positive magnitudes.
\<close>

text \<open>\<open>np.amax\<close> and \<open>np.amin\<close> raise ValueError on an empty array.\<close>

definition amax :: "real list \<Rightarrow> error + real" where
  "amax xs = (if xs = [] then Inl ValueError else Inr (Max (set xs)))"

definition amin :: "real list \<Rightarrow> error + real" where
  "amin xs = (if xs = [] then Inl ValueError else Inr (Min (set xs)))"

text \<open>\<open>np.mean\<close> of a non-empty list.\<close>

definition mean :: "real list \<Rightarrow> real" where
  "mean xs = sum_list xs / real (length xs)"

text \<open>\<open>np.argmax\<close>: the first index of the largest element.\<close>

definition argmax :: "real list \<Rightarrow> error + nat" where
  "argmax xs =
     (if xs = [] then Inl ValueError
      else Inr (length (takeWhile (\<lambda>x. x \<noteq> Max (set xs)) xs)))"

text \<open>\<open>20 * np.log10(a)\<close>.\<close>

definition decibels :: "real list \<Rightarrow> real list" where
  "decibels a = map (\<lambda>x. 20 * log 10 x) a"

text \<open>Lines 147 and 148: \<open>sig = db - np.amax(db) + 20\<close>.\<close>

definition shifted_db :: "real list \<Rightarrow> error + real list" where
  "shifted_db a =
     (case amax (decibels a) of
        Inl e \<Rightarrow> Inl e
      | Inr m \<Rightarrow> Inr (map (\<lambda>x. x - m + 20) (decibels a)))"

text \<open>Line 149: the indices \<open>z\<close> with \<open>sig[z] < 0\<close> and \<open>sig[z+1] >= 0\<close>, in order.\<close>

definition crossing_indices :: "real list \<Rightarrow> nat list" where
  "crossing_indices sig =
     filter (\<lambda>z. sig ! (z + 1) \<ge> 0 \<and> sig ! z < 0) [0..<length sig - 1]"

text \<open>Line 150, for one index.\<close>

definition crossing :: "real list \<Rightarrow> nat \<Rightarrow> real" where
  "crossing sig z = real z - sig ! z / (sig ! (z + 1) - sig ! z)"

text \<open>
  \<open>np.interp(x, np.arange(0, len(fp)), fp)\<close> on a non-empty axis: the first or last
  value outside the axis, and between the points \<open>j\<close> and \<open>j + 1\<close> the value
  \<open>slope * (x - j) + fp[j]\<close>.
\<close>

definition interp_value :: "real \<Rightarrow> real list \<Rightarrow> real" where
  "interp_value x fp =
     (if x \<le> 0 then fp ! 0
      else if real (length fp - 1) \<le> x then fp ! (length fp - 1)
      else let j = nat \<lfloor>x\<rfloor>
           in (fp ! (j + 1) - fp ! j) / (real (j + 1) - real j) * (x - real j) + fp ! j)"

text \<open>\<open>np.interp\<close> raises ValueError when there are no sample points.\<close>

definition interp :: "real \<Rightarrow> real list \<Rightarrow> error + real" where
  "interp x fp = (if fp = [] then Inl ValueError else Inr (interp_value x fp))"

text \<open>Lines 149 to 154.\<close>

definition bandwidth :: "real list \<Rightarrow> real list \<Rightarrow> error + real \<times> real" where
  "bandwidth f sig =
     (let crossings = map (crossing sig) (crossing_indices sig)
      in case amin crossings of
           Inl e \<Rightarrow> Inl e
         | Inr mi \<Rightarrow>
        (case amax crossings of
           Inl e \<Rightarrow> Inl e
         | Inr ma \<Rightarrow>
        (case interp mi f of
           Inl e \<Rightarrow> Inl e
         | Inr f_min \<Rightarrow>
        (case interp ma f of
           Inl e \<Rightarrow> Inl e
         | Inr f_max \<Rightarrow> Inr (f_min, f_max)))))"

definition spectrum ::
  "real list \<Rightarrow> real list \<Rightarrow> error + real list \<times> real list \<times> real \<times> real" where
  "spectrum f a =
     (case shifted_db a of
        Inl e \<Rightarrow> Inl e
      | Inr sig \<Rightarrow>
     (case bandwidth f sig of
        Inl e \<Rightarrow> Inl e
      | Inr (f_min, f_max) \<Rightarrow> Inr (f, a, f_min, f_max)))"

text \<open>
  \<open>np.fft.rfftfreq(n, d)\<close>, the frequency axis of line 145 for \<open>n\<close> samples spaced \<open>d\<close>.
\<close>

definition rfftfreq :: "nat \<Rightarrow> real \<Rightarrow> real list" where
  "rfftfreq n d = map (\<lambda>k. real k / (real n * d)) [0..<n div 2 + 1]"

subsection \<open>The ensemble of \<open>plot_spectrum\<close>\<close>

text \<open>
  The numbers that \<open>Seismic.plot_spectrum\<close> computes in lines 172 to 190 and then draws.
  The argument \<open>amps\<close> holds, for the selected traces in the order of the loop, the
  magnitudes that line 144 produces; all traces have one frequency axis \<open>f\<close>.
\<close>

record spectrum_stats =
  spec :: "real list"
  db :: "real list"
  f_peak :: real
  f_min :: real
  f_max :: real

text \<open>Line 177: \<open>f[np.argmax(amp)]\<close>.\<close>

definition peak_frequency :: "real list \<Rightarrow> real list \<Rightarrow> error + real" where
  "peak_frequency f amp =
     (case argmax amp of
        Inl e \<Rightarrow> Inl e
      | Inr i \<Rightarrow> if i < length f then Inr (f ! i) else Inl IndexError)"

text \<open>
  The loop of lines 173 to 182: for every trace its magnitudes, its peak, and the two
  ends of its band; the first exception ends the loop.
\<close>

fun trace_spectra ::
  "real list \<Rightarrow> real list list \<Rightarrow> error + (real list \<times> real \<times> real \<times> real) list" where
  "trace_spectra f [] = Inr []"
| "trace_spectra f (a # as) =
     (case spectrum f a of
        Inl e \<Rightarrow> Inl e
      | Inr (f', amp, fmi, fma) \<Rightarrow>
     (case peak_frequency f' amp of
        Inl e \<Rightarrow> Inl e
      | Inr peak \<Rightarrow>
     (case trace_spectra f as of
        Inl e \<Rightarrow> Inl e
      | Inr rest \<Rightarrow> Inr ((amp, peak, fmi, fma) # rest))))"

text \<open>
  Line 184 and 185: \<open>np.dstack\<close> raises ValueError for an empty list and for arrays of
  different lengths; the mean over the traces is taken bin by bin.
\<close>

definition mean_spectrum :: "real list list \<Rightarrow> error + real list" where
  "mean_spectrum specs =
     (if specs = [] then Inl ValueError
      else if \<not> list_all (\<lambda>a. length a = length (hd specs)) specs then Inl ValueError
      else Inr (map (\<lambda>k. mean (map (\<lambda>a. a ! k) specs)) [0..<length (hd specs)]))"

text \<open>Lines 186 and 187 on one array of magnitudes.\<close>

definition normalised_db :: "real list \<Rightarrow> error + real list" where
  "normalised_db amp =
     (case amax (decibels amp) of
        Inl e \<Rightarrow> Inl e
      | Inr m \<Rightarrow> Inr (map (\<lambda>x. x - m) (decibels amp)))"

text \<open>
  Lines 172 to 190. In line 186 \<open>amp\<close> is the variable of the loop: after the loop it
  holds the magnitudes of the last trace.
\<close>

definition plot_spectrum :: "real list \<Rightarrow> real list list \<Rightarrow> error + spectrum_stats" where
  "plot_spectrum f amps =
     (case trace_spectra f amps of
        Inl e \<Rightarrow> Inl e
      | Inr rs \<Rightarrow>
     (case mean_spectrum (map fst rs) of
        Inl e \<Rightarrow> Inl e
      | Inr sp \<Rightarrow>
     (case normalised_db (fst (last rs)) of
        Inl e \<Rightarrow> Inl e
      | Inr d \<Rightarrow>
     (case amin (map (\<lambda>r. fst (snd (snd r))) rs) of
        Inl e \<Rightarrow> Inl e
      | Inr lo \<Rightarrow>
     (case amax (map (\<lambda>r. snd (snd (snd r))) rs) of
        Inl e \<Rightarrow> Inl e
      | Inr hi \<Rightarrow>
          Inr \<lparr>spec = sp, db = d,
               f_peak = mean (map (\<lambda>r. fst (snd r)) rs),
               f_min = lo, f_max = hi\<rparr>)))))"

text \<open>
  The curve that the description of the ensemble mode asks for: lines 186 and 187
  applied to the mean of the magnitudes of all selected traces.
\<close>

definition ensemble_db_spec :: "real list list \<Rightarrow> error + real list" where
  "ensemble_db_spec amps =
     (case mean_spectrum amps of
        Inl e \<Rightarrow> Inl e
      | Inr sp \<Rightarrow> normalised_db sp)"

subsection \<open>The bandwidth as it is described\<close>



subsection \<open>Concrete inputs\<close>

text \<open>Arrays of traces with one sample each, row by row.\<close>

definition traces2 :: ndarray where
  "traces2 = \<lparr>shape = [2, 1], flat = [1, 2]\<rparr>"

definition traces8 :: ndarray where
  "traces8 = \<lparr>shape = [8, 1], flat = [1, 2, 3, 4, 5, 6, 7, 8]\<rparr>"

definition traces10 :: ndarray where
  "traces10 = \<lparr>shape = [10, 1], flat = [1, 2, 3, 4, 5, 6, 7, 8, 9, 10]\<rparr>"

definition traces12 :: ndarray where
  "traces12 = \<lparr>shape = [12, 1], flat = [1, 2, 3, 4, 5, 6, 7, 8, 9, 10, 11, 12]\<rparr>"

text \<open>Two traces of three samples; ten traces of no samples; no traces of five samples.\<close>

definition samples23 :: ndarray where
  "samples23 = \<lparr>shape = [2, 3], flat = [1, 2, 3, 4, 5, 6]\<rparr>"

definition empty_traces10 :: ndarray where
  "empty_traces10 = \<lparr>shape = [10, 0], flat = []\<rparr>"

definition no_traces :: ndarray where
  "no_traces = \<lparr>shape = [0, 5], flat = []\<rparr>"

text \<open>Dictionaries of parameters; \<open>dt\<close> is 1 in all of them.\<close>

definition params_nxlines2 :: params where
  "params_nxlines2 = no_params\<lparr>p_nxlines := Some 2, p_dt := Some 1\<rparr>"

definition params_nxlines6 :: params where
  "params_nxlines6 = no_params\<lparr>p_nxlines := Some 6, p_dt := Some 1\<rparr>"

definition params_ninlines2 :: params where
  "params_ninlines2 = no_params\<lparr>p_ninlines := Some 2, p_dt := Some 1\<rparr>"

definition params_ninlines3 :: params where
  "params_ninlines3 = no_params\<lparr>p_ninlines := Some 3, p_dt := Some 1\<rparr>"

definition params_3_by_5 :: params where
  "params_3_by_5 = no_params\<lparr>p_ninlines := Some 3, p_nxlines := Some 5, p_dt := Some 1\<rparr>"

definition params_tstart1 :: params where
  "params_tstart1 = no_params\<lparr>p_tstart := Some 1, p_dt := Some 1\<rparr>"

text \<open>Header values of eight traces on two inlines of four crosslines.\<close>

definition sawtooth8 :: "int list" where
  "sawtooth8 = [1, 2, 3, 4, 1, 2, 3, 4]"

definition stairstep8 :: "int list" where
  "stairstep8 = [1, 1, 1, 1, 2, 2, 2, 2]"

text \<open>The object that the constructor makes of \<open>traces12\<close> with \<open>ninlines = 3\<close>.\<close>

definition volume34 :: seismic where
  "volume34 = \<lparr>data = \<lparr>shape = [3, 4, 1], flat = [1, 2, 3, 4, 5, 6, 7, 8, 9, 10, 11, 12]\<rparr>,
     header = [], ntraces = 12, inlines = [1, 2, 3], xlines = [1, 2, 3, 4],
     ninlines = 3, nxlines = 4, nsamples = 1, tstart = 0, dt = 1, tbasis = [0]\<rparr>"

text \<open>
  The objects that the constructor makes of \<open>traces10\<close> with no geometry at all and
  with \<open>nxlines = 20\<close>.
\<close>

definition params_dt1 :: params where
  "params_dt1 = no_params\<lparr>p_dt := Some 1\<rparr>"

definition params_nxlines20 :: params where
  "params_nxlines20 = no_params\<lparr>p_nxlines := Some 20, p_dt := Some 1\<rparr>"

definition plain_line :: seismic where
  "plain_line = \<lparr>data = traces10, header = [], ntraces = 10, inlines = [1], xlines = [],
     ninlines = 1, nxlines = 0, nsamples = 1, tstart = 0, dt = 1, tbasis = [0]\<rparr>"

definition sparse_line :: seismic where
  "sparse_line = \<lparr>data = traces10, header = [], ntraces = 10, inlines = [],
     xlines = [1, 2, 3, 4, 5, 6, 7, 8, 9, 10, 11, 12, 13, 14, 15, 16, 17, 18, 19, 20],
     ninlines = 0, nxlines = 20, nsamples = 1, tstart = 0, dt = 1, tbasis = [0]\<rparr>"

text \<open>Frequency axes, a shifted curve, and magnitudes of spectra.\<close>

definition axis3 :: "real list" where
  "axis3 = [0, 1, 2]"




definition single_peak :: "real list" where
  "single_peak = [1, 100, 1]"

definition late_peak :: "real list" where
  "late_peak = [1, 1, 100]"

definition peak_at_zero :: "real list" where
  "peak_at_zero = [100, 1, 10]"


section \<open>The constructor\<close>

lemma finish_Inr:
  assumes "finish d p nt nin nx ns = Inr s"
  shows "data s = d" "ninlines s = nin" "nxlines s = nx" "nsamples s = ns" "ntraces s = nt"
    "tstart s = get_or (p_tstart p) 0" "dt s = get_or (p_dt p) 0"
    "arange 0 (real_of_int ns * dt s) (dt s) = Inr (tbasis s)"
  using assms by (auto simp: finish_def split: sum.splits)

lemma init_no_reshape:
  assumes "shape d \<noteq> []" "\<not> 1 < resolved_ninlines d p"
  shows "snd (init d p) =
     finish d p (get_or (p_ntraces p) (int (hd (shape d)))) (resolved_ninlines d p)
       (resolved_nxlines d p) (resolved_nsamples d p)"
  using assms by (simp add: init_def resolved_ninlines_def resolved_nxlines_def resolved_nsamples_def Let_def split: prod.splits)

lemma init_reshape:
  assumes "shape d \<noteq> []" "1 < resolved_ninlines d p"
  shows "snd (init d p) =
     (case reshape d [nat (resolved_ninlines d p), nat (resolved_nxlines d p), last (shape d)] of
        Inl e \<Rightarrow> Inl e
      | Inr d2 \<Rightarrow> finish d2 p (get_or (p_ntraces p) (int (hd (shape d)))) (resolved_ninlines d p) (resolved_nxlines d p)
       (resolved_nsamples d p))"
  using assms by (simp add: init_def resolved_ninlines_def resolved_nxlines_def resolved_nsamples_def Let_def split: prod.splits sum.splits)

lemma init_messages:
  assumes "shape d \<noteq> []"
  shows "fst (init d p) =
     snd (resolve_nsamples (get_or (p_nsamples p) (int (last (shape d)))) (int (last (shape d)))) @
     (if 1 < resolved_ninlines d p
      then snd (resolve_nxlines (int (hd (shape d))) (resolved_ninlines d p) (get_or (p_nxlines p) 0))
      else [])"
  using assms by (simp add: init_def resolved_ninlines_def Let_def split: prod.splits sum.splits)

lemma init_Inr_finish:
  assumes "snd (init d p) = Inr s"
  shows "shape d \<noteq> [] \<and>
    (\<exists>d2. finish d2 p (get_or (p_ntraces p) (int (hd (shape d)))) (resolved_ninlines d p)
            (resolved_nxlines d p) (resolved_nsamples d p) = Inr s \<and>
          (if 1 < resolved_ninlines d p
           then reshape d [nat (resolved_ninlines d p), nat (resolved_nxlines d p), last (shape d)] = Inr d2
           else d2 = d))"
proof -
  have ne: "shape d \<noteq> []"
    using assms by (cases "shape d = []") (simp_all add: init_def)
  show ?thesis
  proof (cases "1 < resolved_ninlines d p")
    case True
    show ?thesis
    proof (cases "reshape d [nat (resolved_ninlines d p), nat (resolved_nxlines d p), last (shape d)]")
      case (Inl e)
      with assms init_reshape[OF ne True] show ?thesis by simp
    next
      case (Inr d2)
      with assms init_reshape[OF ne True] ne True show ?thesis by simp
    qed
  next
    case False
    with assms init_no_reshape[OF ne False] ne show ?thesis by simp
  qed
qed

lemma init_Inr_attrs:
  assumes "snd (init d p) = Inr s"
  shows "ninlines s = resolved_ninlines d p" "nxlines s = resolved_nxlines d p"
    "nsamples s = resolved_nsamples d p" "shape d \<noteq> []"
    "tstart s = get_or (p_tstart p) 0" "dt s = get_or (p_dt p) 0"
    "arange 0 (real_of_int (nsamples s) * dt s) (dt s) = Inr (tbasis s)"
proof -
  from init_Inr_finish[OF assms] obtain d2 where
    f: "finish d2 p (get_or (p_ntraces p) (int (hd (shape d)))) (resolved_ninlines d p)
            (resolved_nxlines d p) (resolved_nsamples d p) = Inr s" and ne: "shape d \<noteq> []"
    by blast
  show "ninlines s = resolved_ninlines d p" by (rule finish_Inr(2)[OF f])
  show "nxlines s = resolved_nxlines d p" by (rule finish_Inr(3)[OF f])
  show ns: "nsamples s = resolved_nsamples d p" by (rule finish_Inr(4)[OF f])
  show "shape d \<noteq> []" by (rule ne)
  show "tstart s = get_or (p_tstart p) 0" by (rule finish_Inr(6)[OF f])
  show "dt s = get_or (p_dt p) 0" by (rule finish_Inr(7)[OF f])
  show "arange 0 (real_of_int (nsamples s) * dt s) (dt s) = Inr (tbasis s)"
    using finish_Inr(8)[OF f] ns by simp
qed

lemma arange_zero_start:
  assumes "arange 0 (real_of_int n * step) step = Inr tb"
  shows "step \<noteq> 0 \<and> tb = map (\<lambda>i. real i * step) [0..<nat n]"
proof -
  have nz: "step \<noteq> 0" using assms by (cases "step = 0") (simp_all add: arange_def)
  then have "(real_of_int n * step - 0) / step = real_of_int n" by simp
  then have "nat \<lceil>(real_of_int n * step - 0) / step\<rceil> = nat n" by simp
  with assms nz show ?thesis by (simp add: arange_def)
qed

lemma tbasis_from_zero:
  assumes "snd (init d p) = Inr s"
  shows "dt s \<noteq> 0 \<and> tbasis s = map (\<lambda>i. real i * dt s) [0..<nat (nsamples s)]"
  using arange_zero_start[OF init_Inr_attrs(7)[OF assms]] .

lemma reshape_Inr:
  assumes "reshape d new = Inr d2"
  shows "shape d2 = new" "flat d2 = flat d" "prod_list new = prod_list (shape d)"
  using assms by (cases "prod_list new = prod_list (shape d)"; simp add: reshape_def; fastforce)+

lemma resolved_nxlines_div:
  "1 < resolved_ninlines d p \<Longrightarrow>
   resolved_nxlines d p = int (hd (shape d)) div resolved_ninlines d p"
  by (simp add: resolved_nxlines_def resolve_nxlines_def Let_def)

lemma nat_mult_div_eq:
  assumes "1 < (n::int)" "nat n * nat (int nt div n) = nt"
  shows "n * (int nt div n) = int nt"
proof -
  have "0 \<le> int nt div n" using assms(1) by (simp add: pos_imp_zdiv_nonneg_iff)
  then have "int (nat n * nat (int nt div n)) = n * (int nt div n)"
    using assms(1) by simp
  with assms(2) show ?thesis by simp
qed

text \<open>
  Claim C1, as amended. For a two-dimensional array of \<open>nt\<close> traces with at least one
  sample each, whenever the resolved \<open>ninlines\<close> exceeds 1 (so that line 56 is reached):
  if \<open>ninlines * nxlines\<close> differs from \<open>nt\<close> the construction raises ValueError, and
  every construction that succeeds has \<open>ninlines * nxlines = nt\<close>, the shape
  \<open>(ninlines, nxlines, ns)\<close> and all the elements of the array, in their order.
\<close>

theorem reshape_consumes_all_traces:
  assumes "shape d = [nt, ns]" "0 < ns" "1 < resolved_ninlines d p"
  shows "(resolved_ninlines d p * resolved_nxlines d p \<noteq> int nt \<longrightarrow>
            snd (init d p) = Inl ValueError) \<and>
         (\<forall>s. snd (init d p) = Inr s \<longrightarrow>
            ninlines s * nxlines s = int nt \<and>
            shape (data s) = [nat (ninlines s), nat (nxlines s), ns] \<and>
            flat (data s) = flat d)"
proof -
  let ?n = "resolved_ninlines d p" and ?x = "resolved_nxlines d p"
  have ne: "shape d \<noteq> []" using assms(1) by simp
  have x: "?x = int nt div ?n" using resolved_nxlines_div[OF assms(3)] assms(1) by simp
  have key: "prod_list [nat ?n, nat ?x, ns] = prod_list (shape d) \<Longrightarrow> ?n * ?x = int nt"
  proof -
    assume "prod_list [nat ?n, nat ?x, ns] = prod_list (shape d)"
    then have "nat ?n * nat ?x * ns = nt * ns" using assms(1) by auto
    then have "nat ?n * nat ?x = nt" using assms(2) by simp
    then show "?n * ?x = int nt" using nat_mult_div_eq[OF assms(3), of nt] x by simp
  qed
  have err: "?n * ?x \<noteq> int nt \<longrightarrow> snd (init d p) = Inl ValueError"
  proof
    assume "?n * ?x \<noteq> int nt"
    with key have "prod_list [nat ?n, nat ?x, ns] \<noteq> prod_list (shape d)" by blast
    then have "reshape d [nat ?n, nat ?x, last (shape d)] = Inl ValueError"
      using assms(1) by (simp add: reshape_def)
    then show "snd (init d p) = Inl ValueError"
      using init_reshape[OF ne assms(3)] by simp
  qed
  have ok: "\<forall>s. snd (init d p) = Inr s \<longrightarrow>
            ninlines s * nxlines s = int nt \<and>
            shape (data s) = [nat (ninlines s), nat (nxlines s), ns] \<and>
            flat (data s) = flat d"
  proof (intro allI impI)
    fix s assume s: "snd (init d p) = Inr s"
    from init_Inr_finish[OF s] assms(3) obtain d2 where
      f: "finish d2 p (get_or (p_ntraces p) (int (hd (shape d)))) ?n ?x (resolved_nsamples d p) = Inr s"
      and r: "reshape d [nat ?n, nat ?x, last (shape d)] = Inr d2"
      by auto
    have a: "ninlines s = ?n" "nxlines s = ?x" "data s = d2"
      using finish_Inr[OF f] by simp_all
    have l: "last (shape d) = ns" using assms(1) by simp
    from reshape_Inr[OF r] l have
      "shape d2 = [nat ?n, nat ?x, ns]" "flat d2 = flat d"
      "prod_list [nat ?n, nat ?x, ns] = prod_list (shape d)" by simp_all
    with key a show "ninlines s * nxlines s = int nt \<and>
            shape (data s) = [nat (ninlines s), nat (nxlines s), ns] \<and>
            flat (data s) = flat d" by simp
  qed
  from err ok show ?thesis by blast
qed

text \<open>
  Claim C7, as amended. In every construction that succeeds, the array is reshaped to
  \<open>(ninlines, nxlines, n)\<close>, with \<open>n\<close> the length of the last axis and the elements
  unchanged, if and only if the resolved \<open>ninlines\<close> exceeds 1, whatever \<open>nxlines\<close>
  resolves to; otherwise the array is kept exactly as supplied.
\<close>

theorem reshape_only_by_ninlines:
  assumes "snd (init d p) = Inr s"
  shows "ninlines s = resolved_ninlines d p \<and> nxlines s = resolved_nxlines d p \<and>
         (1 < ninlines s \<longrightarrow>
            shape (data s) = [nat (ninlines s), nat (nxlines s), last (shape d)] \<and>
            flat (data s) = flat d) \<and>
         (\<not> 1 < ninlines s \<longrightarrow> data s = d)"
proof -
  let ?n = "resolved_ninlines d p" and ?x = "resolved_nxlines d p"
  from init_Inr_finish[OF assms] obtain d2 where
    f: "finish d2 p (get_or (p_ntraces p) (int (hd (shape d)))) ?n ?x (resolved_nsamples d p) = Inr s"
    and r: "if 1 < ?n then reshape d [nat ?n, nat ?x, last (shape d)] = Inr d2 else d2 = d"
    by blast
  have a: "ninlines s = ?n" "nxlines s = ?x" "data s = d2"
    using finish_Inr[OF f] by simp_all
  show ?thesis
  proof (cases "1 < ?n")
    case True
    with r have "reshape d [nat ?n, nat ?x, last (shape d)] = Inr d2" by simp
    from reshape_Inr(1,2)[OF this] a True show ?thesis by simp
  next
    case False
    with r a show ?thesis by simp
  qed
qed

lemmas resolve_defs = resolved_ninlines_def resolved_nxlines_def resolved_nsamples_def
  resolve_ninlines_def resolve_nxlines_def resolve_nsamples_def get_or_def no_params_def
lemmas finish_defs = finish_def linspace_def arange_def get_or_def no_params_def upt_rec

lemma init_traces10_nxlines6:
  "snd (init traces10 params_nxlines6) = finish traces10 params_nxlines6 10 1 6 1"
proof -
  have "resolved_ninlines traces10 params_nxlines6 = 1"
    "resolved_nxlines traces10 params_nxlines6 = 6"
    "resolved_nsamples traces10 params_nxlines6 = 1"
    "get_or (p_ntraces params_nxlines6) (int (hd (shape traces10))) = 10"
    by (simp_all add: resolve_defs traces10_def params_nxlines6_def)
  then show ?thesis using init_no_reshape[of traces10 params_nxlines6]
    by (simp add: traces10_def)
qed

lemma init_empty_traces10:
  "snd (init empty_traces10 params_ninlines3) =
     finish (empty_traces10\<lparr>shape := [3, 3, 0]\<rparr>) params_ninlines3 10 3 3 0"
proof -
  have "resolved_ninlines empty_traces10 params_ninlines3 = 3"
    "resolved_nxlines empty_traces10 params_ninlines3 = 3"
    "resolved_nsamples empty_traces10 params_ninlines3 = 0"
    "get_or (p_ntraces params_ninlines3) (int (hd (shape empty_traces10))) = 10"
    by (simp_all add: resolve_defs empty_traces10_def params_ninlines3_def)
  then show ?thesis using init_reshape[of empty_traces10 params_ninlines3]
    by (simp add: empty_traces10_def reshape_def)
qed

text \<open>
  Claim C1, counterexample. Ten traces with \<open>nxlines = 6\<close>: the construction prints
  nothing and succeeds with \<open>ninlines = 1\<close>, \<open>nxlines = 6\<close> (the product is 6, not 10)
  and the array as supplied. Ten traces of no samples with \<open>ninlines = 3\<close>: the
  construction succeeds with the shape \<open>(3, 3, 0)\<close>, nine traces.
\<close>

theorem mismatch_not_reported:
  "fst (init traces10 params_nxlines6) = [] \<and>
   map_sum id data (snd (init traces10 params_nxlines6)) = Inr traces10 \<and>
   map_sum id ninlines (snd (init traces10 params_nxlines6)) = Inr 1 \<and>
   map_sum id nxlines (snd (init traces10 params_nxlines6)) = Inr 6 \<and>
   shape traces10 = [10, 1] \<and>
   map_sum id (shape \<circ> data) (snd (init empty_traces10 params_ninlines3)) = Inr [3, 3, 0] \<and>
   shape empty_traces10 = [10, 0]"
proof -
  have "fst (init traces10 params_nxlines6) = []"
    using init_messages[of traces10 params_nxlines6]
    by (simp add: resolve_defs traces10_def params_nxlines6_def)
  moreover have "map_sum id data (finish traces10 params_nxlines6 10 1 6 1) = Inr traces10"
    "map_sum id ninlines (finish traces10 params_nxlines6 10 1 6 1) = Inr 1"
    "map_sum id nxlines (finish traces10 params_nxlines6 10 1 6 1) = Inr 6"
    by (simp_all add: finish_defs params_nxlines6_def)
  moreover have "map_sum id (shape \<circ> data)
      (finish (empty_traces10\<lparr>shape := [3, 3, 0]\<rparr>) params_ninlines3 10 3 3 0) = Inr [3, 3, 0]"
    by (simp add: finish_defs params_ninlines3_def)
  ultimately show ?thesis
    unfolding init_traces10_nxlines6 init_empty_traces10
    by (simp add: traces10_def empty_traces10_def)
qed

lemma init_keeps_elements:
  assumes "snd (init d p) = Inr s"
  shows "flat (data s) = flat d" "prod_list (shape (data s)) = prod_list (shape d)"
proof -
  from init_Inr_finish[OF assms] obtain d2 where
    f: "finish d2 p (get_or (p_ntraces p) (int (hd (shape d)))) (resolved_ninlines d p)
          (resolved_nxlines d p) (resolved_nsamples d p) = Inr s" and
    r: "if 1 < resolved_ninlines d p
        then reshape d [nat (resolved_ninlines d p), nat (resolved_nxlines d p), last (shape d)] = Inr d2
        else d2 = d"
    by blast
  have d2: "flat d2 = flat d \<and> prod_list (shape d2) = prod_list (shape d)"
  proof (cases "1 < resolved_ninlines d p")
    case True
    with r have "reshape d [nat (resolved_ninlines d p), nat (resolved_nxlines d p), last (shape d)] = Inr d2"
      by simp
    from reshape_Inr[OF this] show ?thesis by simp
  next
    case False
    with r show ?thesis by simp
  qed
  have "data s = d2" by (rule finish_Inr(1)[OF f])
  with d2 show "flat (data s) = flat d" "prod_list (shape (data s)) = prod_list (shape d)"
    by simp_all
qed

lemma init_keeps_wf:
  assumes "snd (init d p) = Inr s" "wf_ndarray d"
  shows "wf_ndarray (data s)"
  using init_keeps_elements[OF assms(1)] assms(2) by (simp add: wf_ndarray_def)


lemma init_traces10_ninlines3:
  "snd (init traces10 params_ninlines3) = Inl ValueError"
  "resolved_ninlines traces10 params_ninlines3 = 3"
  "resolved_nxlines traces10 params_ninlines3 = 3"
proof -
  show n: "resolved_ninlines traces10 params_ninlines3 = 3"
    by (simp add: resolve_defs traces10_def params_ninlines3_def)
  show x: "resolved_nxlines traces10 params_ninlines3 = 3"
    by (simp add: resolved_nxlines_def n) (simp add: resolve_defs traces10_def params_ninlines3_def)
  have "reshape traces10 [3, 3, 1] = Inl ValueError"
    by (simp add: reshape_def traces10_def)
  then show "snd (init traces10 params_ninlines3) = Inl ValueError"
    using init_reshape[of traces10 params_ninlines3] n x by (simp add: traces10_def)
qed

lemma init_traces12_ninlines3:
  "snd (init traces12 params_ninlines3) =
     finish (traces12\<lparr>shape := [3, 4, 1]\<rparr>) params_ninlines3 12 3 4 1"
proof -
  have "resolved_ninlines traces12 params_ninlines3 = 3"
    "resolved_nxlines traces12 params_ninlines3 = 4"
    "resolved_nsamples traces12 params_ninlines3 = 1"
    "get_or (p_ntraces params_ninlines3) (int (hd (shape traces12))) = 12"
    by (simp_all add: resolve_defs traces12_def params_ninlines3_def)
  then show ?thesis using init_reshape[of traces12 params_ninlines3]
    by (simp add: traces12_def reshape_def)
qed

lemma finish_traces12:
  "\<exists>s. finish (traces12\<lparr>shape := [3, 4, 1]\<rparr>) params_ninlines3 12 3 4 1 = Inr s"
  by (simp add: finish_defs params_ninlines3_def)

text \<open>
  Claim C1, witness: ten traces with \<open>ninlines = 3\<close> raise ValueError, twelve traces with
  \<open>ninlines = 3\<close> become a volume of 3 by 4 lines.
\<close>

theorem reshape_consumes_all_traces_witness:
  "shape traces10 = [10, 1] \<and> 1 < resolved_ninlines traces10 params_ninlines3 \<and>
   resolved_ninlines traces10 params_ninlines3 * resolved_nxlines traces10 params_ninlines3 \<noteq> 10 \<and>
   snd (init traces10 params_ninlines3) = Inl ValueError \<and>
   shape traces12 = [12, 1] \<and> 1 < resolved_ninlines traces12 params_ninlines3 \<and>
   (\<exists>s. snd (init traces12 params_ninlines3) = Inr s \<and> ninlines s * nxlines s = 12 \<and>
        shape (data s) = [3, 4, 1] \<and> flat (data s) = flat traces12)"
proof -
  have s10: "shape traces10 = [10, 1]" by (simp add: traces10_def)
  have n10: "1 < resolved_ninlines traces10 params_ninlines3"
    by (simp add: init_traces10_ninlines3)
  have m10: "resolved_ninlines traces10 params_ninlines3 *
      resolved_nxlines traces10 params_ninlines3 \<noteq> int 10"
    by (simp add: init_traces10_ninlines3)
  have e10: "snd (init traces10 params_ninlines3) = Inl ValueError"
    using reshape_consumes_all_traces[OF s10 _ n10] m10 by simp
  have s12: "shape traces12 = [12, 1]" by (simp add: traces12_def)
  have n12: "1 < resolved_ninlines traces12 params_ninlines3"
    by (simp add: resolve_defs traces12_def params_ninlines3_def)
  from finish_traces12 obtain s where s: "snd (init traces12 params_ninlines3) = Inr s"
    unfolding init_traces12_ninlines3 by blast
  have a: "ninlines s = 3" "nxlines s = 4"
    using s finish_Inr(2,3)[of _ params_ninlines3 12 3 4 1 s]
    unfolding init_traces12_ninlines3 by simp_all
  have "ninlines s * nxlines s = int 12 \<and>
        shape (data s) = [nat (ninlines s), nat (nxlines s), 1] \<and> flat (data s) = flat traces12"
    using reshape_consumes_all_traces[OF s12 _ n12] s by simp
  with a s have "\<exists>s. snd (init traces12 params_ninlines3) = Inr s \<and> ninlines s * nxlines s = 12 \<and>
        shape (data s) = [3, 4, 1] \<and> flat (data s) = flat traces12"
    by auto
  with s10 n10 m10 e10 s12 n12 show ?thesis by simp
qed


lemma init_traces2_ninlines3:
  "resolved_ninlines traces2 params_ninlines3 = 3"
  "resolved_nxlines traces2 params_ninlines3 = 0"
  "snd (init traces2 params_ninlines3) = Inl ValueError"
proof -
  show n: "resolved_ninlines traces2 params_ninlines3 = 3"
    by (simp add: resolve_defs traces2_def params_ninlines3_def)
  show x: "resolved_nxlines traces2 params_ninlines3 = 0"
    by (simp add: resolved_nxlines_def n) (simp add: resolve_defs traces2_def params_ninlines3_def)
  have "reshape traces2 [3, 0, 1] = Inl ValueError"
    by (simp add: reshape_def traces2_def)
  then show "snd (init traces2 params_ninlines3) = Inl ValueError"
    using init_reshape[of traces2 params_ninlines3] n x by (simp add: traces2_def)
qed

lemma init_no_traces:
  "resolved_ninlines no_traces params_ninlines2 = 2"
  "resolved_nxlines no_traces params_ninlines2 = 0"
  "snd (init no_traces params_ninlines2) =
     finish (no_traces\<lparr>shape := [2, 0, 5]\<rparr>) params_ninlines2 0 2 0 5"
proof -
  show n: "resolved_ninlines no_traces params_ninlines2 = 2"
    by (simp add: resolve_defs no_traces_def params_ninlines2_def)
  show x: "resolved_nxlines no_traces params_ninlines2 = 0"
    by (simp add: resolved_nxlines_def n) (simp add: resolve_defs no_traces_def params_ninlines2_def)
  have "resolved_nsamples no_traces params_ninlines2 = 5"
    "get_or (p_ntraces params_ninlines2) (int (hd (shape no_traces))) = 0"
    by (simp_all add: resolve_defs no_traces_def params_ninlines2_def)
  then show "snd (init no_traces params_ninlines2) =
     finish (no_traces\<lparr>shape := [2, 0, 5]\<rparr>) params_ninlines2 0 2 0 5"
    using init_reshape[of no_traces params_ninlines2] n x
    by (simp add: no_traces_def reshape_def)
qed

text \<open>
  Claim C7, counterexample. Two traces with \<open>ninlines = 3\<close>: \<open>nxlines\<close> resolves to 0 and
  the array is not kept as supplied, the reshape of line 56 is tried and raises
  ValueError. An array of no traces with \<open>ninlines = 2\<close>: \<open>nxlines\<close> resolves to 0 and the
  array is reshaped from \<open>(0, 5)\<close> to \<open>(2, 0, 5)\<close>.
\<close>

theorem reshape_without_xlines:
  "resolved_ninlines traces2 params_ninlines3 = 3 \<and>
   resolved_nxlines traces2 params_ninlines3 = 0 \<and>
   snd (init traces2 params_ninlines3) = Inl ValueError \<and>
   resolved_nxlines no_traces params_ninlines2 = 0 \<and>
   shape no_traces = [0, 5] \<and>
   map_sum id (shape \<circ> data) (snd (init no_traces params_ninlines2)) = Inr [2, 0, 5]"
proof -
  have "map_sum id (shape \<circ> data)
      (finish (no_traces\<lparr>shape := [2, 0, 5]\<rparr>) params_ninlines2 0 2 0 5) = Inr [2, 0, 5]"
    by (simp add: finish_defs params_ninlines2_def)
  then show ?thesis
    unfolding init_traces2_ninlines3 init_no_traces
    by (simp add: no_traces_def)
qed

lemma finish_traces10:
  "\<exists>s. finish traces10 params_nxlines6 10 1 6 1 = Inr s"
  by (simp add: finish_defs params_nxlines6_def)

text \<open>
  Claim C7, witness: twelve traces with \<open>ninlines = 3\<close> are reshaped to \<open>(3, 4, 1)\<close>;
  ten traces with \<open>nxlines = 6\<close> resolve to \<open>ninlines = 1\<close> and are kept as supplied.
\<close>

theorem reshape_only_by_ninlines_witness:
  "(\<exists>s. snd (init traces12 params_ninlines3) = Inr s \<and> ninlines s = 3 \<and> nxlines s = 4 \<and>
       shape (data s) = [3, 4, 1] \<and> flat (data s) = flat traces12) \<and>
   (\<exists>s. snd (init traces10 params_nxlines6) = Inr s \<and> ninlines s = 1 \<and> nxlines s = 6 \<and>
       data s = traces10)"
proof -
  from finish_traces12 obtain s where s: "snd (init traces12 params_ninlines3) = Inr s"
    unfolding init_traces12_ninlines3 by blast
  have l: "last (shape traces12) = 1" by (simp add: traces12_def)
  have r: "resolved_ninlines traces12 params_ninlines3 = 3"
    "resolved_nxlines traces12 params_ninlines3 = 4"
    by (simp_all add: resolve_defs traces12_def params_ninlines3_def)
  from reshape_only_by_ninlines[OF s] r l
  have "ninlines s = 3 \<and> nxlines s = 4 \<and> shape (data s) = [3, 4, 1] \<and>
        flat (data s) = flat traces12"
    by simp
  with s have one: "\<exists>s. snd (init traces12 params_ninlines3) = Inr s \<and> ninlines s = 3 \<and>
       nxlines s = 4 \<and> shape (data s) = [3, 4, 1] \<and> flat (data s) = flat traces12"
    by blast
  from finish_traces10 obtain t where t: "snd (init traces10 params_nxlines6) = Inr t"
    unfolding init_traces10_nxlines6 by blast
  have r': "resolved_ninlines traces10 params_nxlines6 = 1"
    "resolved_nxlines traces10 params_nxlines6 = 6"
    by (simp_all add: resolve_defs traces10_def params_nxlines6_def)
  from reshape_only_by_ninlines[OF t] r'
  have "ninlines t = 1 \<and> nxlines t = 6 \<and> data t = traces10"
    by simp
  with t have "\<exists>s. snd (init traces10 params_nxlines6) = Inr s \<and> ninlines s = 1 \<and>
       nxlines s = 6 \<and> data s = traces10"
    by blast
  with one show ?thesis by blast
qed


lemma from_obspy_keeps_nxlines:
  assumes "p_nxlines q = Some v" "v \<noteq> 0"
  shows "p_nxlines (from_obspy_geometry q sawtooth monotonic stairstep) = Some v"
  using assms by (simp add: from_obspy_geometry_def or_count_def Let_def)

lemma from_obspy_ninlines:
  "p_ninlines (from_obspy_geometry q sawtooth monotonic stairstep) = Some 1"
  by (simp add: from_obspy_geometry_def or_count_def Let_def)

text \<open>
  Claim C5, as amended. In the constructor, whenever the resolved \<open>ninlines\<close> exceeds 1,
  \<open>nxlines\<close> is replaced by the count derived from the data, \<open>int(shape[0] / ninlines)\<close>,
  whatever the caller supplied, and the message about it is printed exactly when the
  new count is not zero and differs from the supplied one; a supplied \<open>ninlines\<close> other
  than 1 is kept as supplied. In \<open>from_obspy\<close> a supplied non-zero \<open>nxlines\<close> takes
  precedence over the count derived from the header pattern.
\<close>

theorem nxlines_follows_data:
  assumes "shape d \<noteq> []" "1 < resolved_ninlines d p"
  shows "resolved_nxlines d p = int (hd (shape d)) div resolved_ninlines d p \<and>
         (NxlinesChanged (resolved_nxlines d p) \<in> set (fst (init d p)) \<longleftrightarrow>
            resolved_nxlines d p \<noteq> 0 \<and> get_or (p_nxlines p) 0 \<noteq> resolved_nxlines d p) \<and>
         (\<forall>s. snd (init d p) = Inr s \<longrightarrow>
            nxlines s = resolved_nxlines d p \<and> ninlines s = resolved_ninlines d p) \<and>
         (get_or (p_ninlines p) 1 \<noteq> 1 \<longrightarrow> resolved_ninlines d p = get_or (p_ninlines p) 1) \<and>
         (p_nxlines q = Some v \<and> v \<noteq> 0 \<longrightarrow>
            p_nxlines (from_obspy_geometry q sawtooth monotonic stairstep) = Some v)"
proof -
  have a: "resolved_nxlines d p = int (hd (shape d)) div resolved_ninlines d p"
    by (rule resolved_nxlines_div[OF assms(2)])
  have b: "NxlinesChanged (resolved_nxlines d p) \<in> set (fst (init d p)) \<longleftrightarrow>
            resolved_nxlines d p \<noteq> 0 \<and> get_or (p_nxlines p) 0 \<noteq> resolved_nxlines d p"
    using assms(2) unfolding init_messages[OF assms(1)] a
    by (auto simp: resolve_nsamples_def resolve_nxlines_def Let_def)
  have c: "\<forall>s. snd (init d p) = Inr s \<longrightarrow>
            nxlines s = resolved_nxlines d p \<and> ninlines s = resolved_ninlines d p"
    using init_Inr_attrs(1,2) by blast
  have e: "get_or (p_ninlines p) 1 \<noteq> 1 \<longrightarrow> resolved_ninlines d p = get_or (p_ninlines p) 1"
    by (simp add: resolved_ninlines_def resolve_ninlines_def)
  from a b c e from_obspy_keeps_nxlines show ?thesis by blast
qed

lemma init_traces10_3_by_5:
  "fst (init traces10 params_3_by_5) = [NxlinesChanged 3]"
  "snd (init traces10 params_3_by_5) = Inl ValueError"
proof -
  have n: "resolved_ninlines traces10 params_3_by_5 = 3"
    by (simp add: resolve_defs traces10_def params_3_by_5_def)
  have x: "resolved_nxlines traces10 params_3_by_5 = 3"
    by (simp add: resolved_nxlines_def n) (simp add: resolve_defs traces10_def params_3_by_5_def)
  have ne: "shape traces10 \<noteq> []" by (simp add: traces10_def)
  have m: "snd (resolve_nsamples (get_or (p_nsamples params_3_by_5) (int (last (shape traces10))))
             (int (last (shape traces10)))) = []"
    "snd (resolve_nxlines (int (hd (shape traces10))) 3 (get_or (p_nxlines params_3_by_5) 0)) =
       [NxlinesChanged 3]"
    by (simp_all add: resolve_defs traces10_def params_3_by_5_def)
  show "fst (init traces10 params_3_by_5) = [NxlinesChanged 3]"
    by (simp add: init_messages[OF ne] n m)
  have "reshape traces10 [3, 3, 1] = Inl ValueError"
    by (simp add: reshape_def traces10_def)
  then show "snd (init traces10 params_3_by_5) = Inl ValueError"
    using init_reshape[of traces10 params_3_by_5] n x by (simp add: traces10_def)
qed

lemma span_sawtooth8: "span sawtooth8 = 4"
  by (simp add: span_def sawtooth8_def)

lemma from_obspy_nxlines2:
  "from_obspy_geometry params_nxlines2 sawtooth8 [] stairstep8 =
     params_nxlines2\<lparr>p_nxlines := Some 2, p_xlines := Some (map real_of_int sawtooth8),
        p_ninlines := Some 1, p_inlines := Some (map real_of_int stairstep8)\<rparr>"
  by (simp add: from_obspy_geometry_def np_any_def or_count_def or_coords_def Let_def
      params_nxlines2_def no_params_def sawtooth8_def stairstep8_def)

lemma init_traces8:
  "fst (init traces8 (from_obspy_geometry params_nxlines2 sawtooth8 [] stairstep8)) = []"
  "map_sum id nxlines
     (snd (init traces8 (from_obspy_geometry params_nxlines2 sawtooth8 [] stairstep8))) = Inr 2"
  "map_sum id ninlines
     (snd (init traces8 (from_obspy_geometry params_nxlines2 sawtooth8 [] stairstep8))) = Inr 4"
proof -
  let ?p = "from_obspy_geometry params_nxlines2 sawtooth8 [] stairstep8"
  have n: "resolved_ninlines traces8 ?p = 4"
    unfolding from_obspy_nxlines2
    by (simp add: resolve_defs traces8_def params_nxlines2_def)
  have x: "resolved_nxlines traces8 ?p = 2"
    unfolding resolved_nxlines_def n unfolding from_obspy_nxlines2
    by (simp add: resolve_defs traces8_def params_nxlines2_def)
  have o: "resolved_nsamples traces8 ?p = 1"
    "get_or (p_ntraces ?p) (int (hd (shape traces8))) = 8" "get_or (p_nxlines ?p) 0 = 2"
    unfolding from_obspy_nxlines2
    by (simp_all add: resolve_defs traces8_def params_nxlines2_def)
  have ne: "shape traces8 \<noteq> []" by (simp add: traces8_def)
  have m: "snd (resolve_nsamples (get_or (p_nsamples ?p) (int (last (shape traces8))))
             (int (last (shape traces8)))) = []"
    "snd (resolve_nxlines (int (hd (shape traces8))) 4 (get_or (p_nxlines ?p) 0)) = []"
    unfolding from_obspy_nxlines2
    by (simp_all add: resolve_defs traces8_def params_nxlines2_def)
  show "fst (init traces8 ?p) = []"
    by (simp add: init_messages[OF ne] n m)
  have "snd (init traces8 ?p) = finish (traces8\<lparr>shape := [4, 2, 1]\<rparr>) ?p 8 4 2 1"
    using init_reshape[of traces8 ?p] n x o by (simp add: traces8_def reshape_def)
  moreover have "map_sum id nxlines (finish (traces8\<lparr>shape := [4, 2, 1]\<rparr>) ?p 8 4 2 1) = Inr 2"
    "map_sum id ninlines (finish (traces8\<lparr>shape := [4, 2, 1]\<rparr>) ?p 8 4 2 1) = Inr 4"
    unfolding from_obspy_nxlines2
    by (simp_all add: finish_defs params_nxlines2_def)
  ultimately show "map_sum id nxlines (snd (init traces8 ?p)) = Inr 2"
    "map_sum id ninlines (snd (init traces8 ?p)) = Inr 4" by simp_all
qed

text \<open>
  Claim C5, counterexample. Eight traces whose headers form the sawtooth 1 to 4 (four
  crosslines) and a supplied \<open>nxlines = 2\<close>: the supplied count wins and nothing is
  printed. Ten traces with a supplied \<open>ninlines = 3\<close> and \<open>nxlines = 5\<close>: \<open>ninlines\<close> is
  not adjusted and the conflict with the data ends in ValueError.
\<close>

theorem explicit_count_kept:
  "span sawtooth8 = 4 \<and>
   p_nxlines params_nxlines2 = Some 2 \<and>
   p_nxlines (from_obspy_geometry params_nxlines2 sawtooth8 [] stairstep8) = Some 2 \<and>
   fst (init traces8 (from_obspy_geometry params_nxlines2 sawtooth8 [] stairstep8)) = [] \<and>
   map_sum id nxlines
     (snd (init traces8 (from_obspy_geometry params_nxlines2 sawtooth8 [] stairstep8))) = Inr 2 \<and>
   p_ninlines params_3_by_5 = Some 3 \<and>
   fst (init traces10 params_3_by_5) = [NxlinesChanged 3] \<and>
   snd (init traces10 params_3_by_5) = Inl ValueError"
proof -
  have "p_nxlines params_nxlines2 = Some 2" "p_ninlines params_3_by_5 = Some 3"
    by (simp_all add: params_nxlines2_def params_3_by_5_def no_params_def)
  moreover have "p_nxlines (from_obspy_geometry params_nxlines2 sawtooth8 [] stairstep8) = Some 2"
    unfolding from_obspy_nxlines2 by simp
  ultimately show ?thesis
    using span_sawtooth8 init_traces8(1,2) init_traces10_3_by_5 by simp
qed


lemma init_traces12_3_by_5:
  "resolved_ninlines traces12 params_3_by_5 = 3"
  "resolved_nxlines traces12 params_3_by_5 = 4"
  "get_or (p_nxlines params_3_by_5) 0 = 5"
  "get_or (p_ninlines params_3_by_5) 1 = 3"
  "\<exists>s. snd (init traces12 params_3_by_5) = Inr s"
proof -
  show n: "resolved_ninlines traces12 params_3_by_5 = 3"
    by (simp add: resolve_defs traces12_def params_3_by_5_def)
  show x: "resolved_nxlines traces12 params_3_by_5 = 4"
    by (simp add: resolved_nxlines_def n) (simp add: resolve_defs traces12_def params_3_by_5_def)
  show "get_or (p_nxlines params_3_by_5) 0 = 5" "get_or (p_ninlines params_3_by_5) 1 = 3"
    by (simp_all add: get_or_def params_3_by_5_def no_params_def)
  have o: "resolved_nsamples traces12 params_3_by_5 = 1"
    "get_or (p_ntraces params_3_by_5) (int (hd (shape traces12))) = 12"
    by (simp_all add: resolve_defs traces12_def params_3_by_5_def)
  have "snd (init traces12 params_3_by_5) =
      finish (traces12\<lparr>shape := [3, 4, 1]\<rparr>) params_3_by_5 12 3 4 1"
    using init_reshape[of traces12 params_3_by_5] n x o by (simp add: traces12_def reshape_def)
  moreover have "\<exists>s. finish (traces12\<lparr>shape := [3, 4, 1]\<rparr>) params_3_by_5 12 3 4 1 = Inr s"
    by (simp add: finish_defs params_3_by_5_def)
  ultimately show "\<exists>s. snd (init traces12 params_3_by_5) = Inr s" by simp
qed

text \<open>
  Claim C5, witness: twelve traces with \<open>ninlines = 3\<close> and \<open>nxlines = 5\<close> give
  \<open>nxlines = 4\<close> and the message; a supplied \<open>nxlines = 2\<close> survives \<open>from_obspy\<close>.
\<close>

theorem nxlines_follows_data_witness:
  "shape traces12 \<noteq> [] \<and> 1 < resolved_ninlines traces12 params_3_by_5 \<and>
   get_or (p_nxlines params_3_by_5) 0 = 5 \<and>
   resolved_nxlines traces12 params_3_by_5 = 4 \<and>
   NxlinesChanged 4 \<in> set (fst (init traces12 params_3_by_5)) \<and>
   (\<exists>s. snd (init traces12 params_3_by_5) = Inr s \<and> nxlines s = 4 \<and> ninlines s = 3) \<and>
   p_nxlines params_nxlines2 = Some 2 \<and>
   p_nxlines (from_obspy_geometry params_nxlines2 sawtooth8 [] stairstep8) = Some 2"
proof -
  have ne: "shape traces12 \<noteq> []" by (simp add: traces12_def)
  have n: "1 < resolved_ninlines traces12 params_3_by_5"
    by (simp add: init_traces12_3_by_5)
  have q: "p_nxlines params_nxlines2 = Some 2"
    by (simp add: params_nxlines2_def no_params_def)
  note t = nxlines_follows_data[OF ne n, of params_nxlines2 2 sawtooth8 "[]" stairstep8]
  from init_traces12_3_by_5(5) obtain s where s: "snd (init traces12 params_3_by_5) = Inr s"
    by blast
  with t have "nxlines s = 4 \<and> ninlines s = 3" by (simp add: init_traces12_3_by_5)
  with s have "\<exists>s. snd (init traces12 params_3_by_5) = Inr s \<and> nxlines s = 4 \<and> ninlines s = 3"
    by blast
  moreover have "NxlinesChanged 4 \<in> set (fst (init traces12 params_3_by_5))"
    using t by (simp add: init_traces12_3_by_5)
  moreover have "p_nxlines (from_obspy_geometry params_nxlines2 sawtooth8 [] stairstep8) = Some 2"
    using t q by simp
  ultimately show ?thesis using ne n q by (simp add: init_traces12_3_by_5)
qed

lemma init_samples23:
  "snd (init samples23 params_tstart1) = finish samples23 params_tstart1 2 1 0 3"
proof -
  have "resolved_ninlines samples23 params_tstart1 = 1"
    "resolved_nxlines samples23 params_tstart1 = 0"
    "resolved_nsamples samples23 params_tstart1 = 3"
    "get_or (p_ntraces params_tstart1) (int (hd (shape samples23))) = 2"
    by (simp_all add: resolve_defs samples23_def params_tstart1_def)
  then show ?thesis using init_no_reshape[of samples23 params_tstart1]
    by (simp add: samples23_def)
qed

text \<open>
  Claim C4, evaluated where it fails. With \<open>tstart = 1\<close>, \<open>dt = 1\<close> and three samples the
  time basis is \<open>[0, 1, 2]\<close>: it has three entries, and its first entry is 0, not
  \<open>tstart\<close>.
\<close>

theorem time_basis_ignores_tstart:
  "map_sum id tstart (snd (init samples23 params_tstart1)) = Inr 1 \<and>
   map_sum id dt (snd (init samples23 params_tstart1)) = Inr 1 \<and>
   map_sum id nsamples (snd (init samples23 params_tstart1)) = Inr 3 \<and>
   map_sum id tbasis (snd (init samples23 params_tstart1)) = Inr [0, 1, 2]"
  unfolding init_samples23
  by (simp add: finish_defs params_tstart1_def)

section \<open>Ranges and lines\<close>

lemma init_volume34: "snd (init traces12 params_ninlines3) = Inr volume34"
  unfolding init_traces12_ninlines3
  by (simp add: finish_defs params_ninlines3_def volume34_def traces12_def)

lemma lower_eq_Nil: "lower s = [] \<longleftrightarrow> s = []"
  by (simp add: lower_def)

text \<open>
  Claim C10, as amended. For every non-empty direction string, on an object whose
  \<open>xlines\<close> is not empty and whose \<open>inlines\<close> is not empty when the direction starts
  with \<open>x\<close> or \<open>X\<close>, \<open>trace_range\<close> returns the pair \<open>(xlines[0], xlines[-1])\<close>,
  whether the direction asks for inlines or for crosslines: line 80 evaluates the ends
  of \<open>inlines\<close> and drops them.
\<close>

theorem trace_range_returns_xlines:
  assumes "direction \<noteq> []" "xlines s \<noteq> []"
    and "inlines s \<noteq> [] \<or> hd (lower direction) \<noteq> CHR ''x''"
  shows "trace_range s direction = Inr (hd (xlines s), last (xlines s))"
  using assms by (auto simp: trace_range_def endpoints_def lower_eq_Nil)

lemma lower_examples:
  "hd (lower ''inline'') = CHR ''i''" "hd (lower ''xline'') = CHR ''x''"
  "hd (lower ''X'') = CHR ''x''"
  by (simp_all add: lower_def lower_char_def)

text \<open>
  Claim C10, witness: on the volume of 3 by 4 lines the inline direction and the
  crossline direction both give the ends of \<open>xlines\<close>, 1 and 4.
\<close>

theorem trace_range_returns_xlines_witness:
  "trace_range volume34 ''inline'' = Inr (1, 4) \<and>
   trace_range volume34 ''xline'' = Inr (1, 4) \<and>
   trace_range volume34 ''X'' = Inr (1, 4) \<and>
   inlines volume34 = [1, 2, 3] \<and> xlines volume34 = [1, 2, 3, 4]"
proof -
  have x: "xlines volume34 \<noteq> []" and i: "inlines volume34 \<noteq> []"
    by (simp_all add: volume34_def)
  have "trace_range volume34 ''inline'' = Inr (hd (xlines volume34), last (xlines volume34))"
    by (rule trace_range_returns_xlines[OF _ x]) (simp_all add: lower_examples)
  moreover have "trace_range volume34 ''xline'' = Inr (hd (xlines volume34), last (xlines volume34))"
    by (rule trace_range_returns_xlines[OF _ x]) (simp_all add: i)
  moreover have "trace_range volume34 ''X'' = Inr (hd (xlines volume34), last (xlines volume34))"
    by (rule trace_range_returns_xlines[OF _ x]) (simp_all add: i)
  ultimately show ?thesis by (simp add: volume34_def)
qed

lemma init_plain_line: "snd (init traces10 params_dt1) = Inr plain_line"
proof -
  have "resolved_ninlines traces10 params_dt1 = 1"
    "resolved_nxlines traces10 params_dt1 = 0"
    "resolved_nsamples traces10 params_dt1 = 1"
    "get_or (p_ntraces params_dt1) (int (hd (shape traces10))) = 10"
    by (simp_all add: resolve_defs traces10_def params_dt1_def)
  then have "snd (init traces10 params_dt1) = finish traces10 params_dt1 10 1 0 1"
    using init_no_reshape[of traces10 params_dt1] by (simp add: traces10_def)
  also have "\<dots> = Inr plain_line"
    by (simp add: finish_defs params_dt1_def plain_line_def)
  finally show ?thesis .
qed

lemma init_sparse_line: "snd (init traces10 params_nxlines20) = Inr sparse_line"
proof -
  have "resolved_ninlines traces10 params_nxlines20 = 0"
    "resolved_nxlines traces10 params_nxlines20 = 20"
    "resolved_nsamples traces10 params_nxlines20 = 1"
    "get_or (p_ntraces params_nxlines20) (int (hd (shape traces10))) = 10"
    by (simp_all add: resolve_defs traces10_def params_nxlines20_def)
  then have "snd (init traces10 params_nxlines20) = finish traces10 params_nxlines20 10 0 20 1"
    using init_no_reshape[of traces10 params_nxlines20] by (simp add: traces10_def)
  also have "\<dots> = Inr sparse_line"
    by (simp add: finish_defs params_nxlines20_def sparse_line_def)
  finally show ?thesis .
qed

text \<open>
  Claim C10, counterexample. Ten traces with no geometry: the constructor leaves
  \<open>xlines\<close> empty and \<open>trace_range\<close> raises IndexError for either direction. Ten traces
  with \<open>nxlines = 20\<close>: \<open>ninlines\<close> resolves to 0, \<open>inlines\<close> is empty, and the inline
  direction gives \<open>(1, 20)\<close> while the crossline direction raises IndexError.
\<close>

theorem trace_range_raises:
  "snd (init traces10 params_dt1) = Inr plain_line \<and>
   trace_range plain_line ''inline'' = Inl IndexError \<and>
   trace_range plain_line ''xline'' = Inl IndexError \<and>
   snd (init traces10 params_nxlines20) = Inr sparse_line \<and>
   trace_range sparse_line ''inline'' = Inr (1, 20) \<and>
   trace_range sparse_line ''xline'' = Inl IndexError"
proof -
  have "trace_range plain_line ''inline'' = Inl IndexError"
    "trace_range plain_line ''xline'' = Inl IndexError"
    by (simp_all add: trace_range_def endpoints_def lower_examples lower_eq_Nil plain_line_def)
  moreover have "trace_range sparse_line ''inline'' = Inr (1, 20)"
    "trace_range sparse_line ''xline'' = Inl IndexError"
    by (simp_all add: trace_range_def endpoints_def lower_examples lower_eq_Nil sparse_line_def)
  ultimately show ?thesis using init_plain_line init_sparse_line by simp
qed

lemma get_line_float_fails:
  assumes "3 \<le> ndim (data s)" "direction = None \<or> (\<exists>d. direction = Some d \<and> d \<noteq> [])"
  shows "get_line s (PyFloat r) direction = Inl IndexError"
  using assms
  by (auto simp: get_line_def axis_index_def imul_def less_one_def lower_eq_Nil
      split: bool.splits)

lemma get_line_absolute:
  assumes "3 \<le> ndim (data s)" "1 \<le> i" "i < int (hd (shape (data s)))"
  shows "get_line s (PyInt i) None = Inr (take_axis0 (data s) (nat i))"
  using assms by (simp add: get_line_def axis_index_def less_one_def)

text \<open>
  Claim C6, evaluated where it fails. On the volume of 3 by 4 lines, \<open>l = 0.5\<close> is
  multiplied by the number of lines and stays a \<open>float\<close> (1.5 inlines, 2.0 crosslines);
  the array does not accept it as an index and \<open>get_line\<close> raises IndexError in either
  direction, where the claim has the middle line. An \<open>int\<close> \<open>l = 1\<close> selects the line
  at position 1 of the requested axis.
\<close>

theorem get_line_fraction_raises:
  "ndim (data volume34) = 3 \<and> ninlines volume34 = 3 \<and> nxlines volume34 = 4 \<and>
   get_line volume34 (PyFloat (1 / 2)) None = Inl IndexError \<and>
   get_line volume34 (PyFloat (1 / 2)) (Some ''i'') = Inl IndexError \<and>
   get_line volume34 (PyFloat (1 / 2)) (Some ''x'') = Inl IndexError \<and>
   get_line volume34 (PyInt 1) (Some ''i'') = Inr \<lparr>shape = [4, 1], flat = [5, 6, 7, 8]\<rparr> \<and>
   get_line volume34 (PyInt 1) (Some ''x'') = Inr \<lparr>shape = [3, 1], flat = [2, 6, 10]\<rparr>"
  by (simp add: get_line_def axis_index_def imul_def less_one_def lower_def lower_char_def
      ndim_def volume34_def take_axis0_def take_axis1_def upt_rec)

section \<open>Bandwidth\<close>




lemma interp_value_mono:
  assumes "sorted f" "x \<le> y"
  shows "interp_value x f \<le> interp_value y f"
proof (cases "f = []")
  case True
  have "interp_value u [] = [] ! 0" for u :: real
    by (simp add: interp_value_def)
  then show ?thesis using True by simp
next
  case False
  let ?n = "length f"
  have n: "0 < ?n" using False by simp
  have nth_mono: "f ! i \<le> f ! j" if "i \<le> j" "j < ?n" for i j
    using sorted_nth_mono[OF assms(1) that] .
  have mid_eq: "interp_value u f =
      f ! nat \<lfloor>u\<rfloor> + (u - real (nat \<lfloor>u\<rfloor>)) * (f ! (nat \<lfloor>u\<rfloor> + 1) - f ! nat \<lfloor>u\<rfloor>)"
    if u: "\<not> u \<le> 0" "\<not> real (?n - 1) \<le> u" for u
  proof -
    let ?j = "nat \<lfloor>u\<rfloor>"
    have "interp_value u f =
        (f ! (?j + 1) - f ! ?j) / (real (?j + 1) - real ?j) * (u - real ?j) + f ! ?j"
      unfolding interp_value_def Let_def if_not_P[OF u(1)] if_not_P[OF u(2)] ..
    then show ?thesis by simp
  qed
  have mid: "f ! nat \<lfloor>u\<rfloor> \<le> interp_value u f \<and> interp_value u f \<le> f ! (nat \<lfloor>u\<rfloor> + 1) \<and>
             nat \<lfloor>u\<rfloor> + 1 < ?n"
    if u: "\<not> u \<le> 0" "\<not> real (?n - 1) \<le> u" for u
  proof -
    let ?j = "nat \<lfloor>u\<rfloor>"
    have u0: "0 \<le> u" using u(1) by simp
    then have rj: "real ?j = real_of_int \<lfloor>u\<rfloor>" by simp
    have j: "real ?j \<le> u" "u < real ?j + 1"
      unfolding rj using floor_correct[of u] by simp_all
    have "real ?j < real (?n - 1)" using j(1) u(2) by linarith
    then have jn: "?j + 1 < ?n" by simp
    have d: "0 \<le> f ! (?j + 1) - f ! ?j" using nth_mono[of ?j "?j + 1"] jn by simp
    have t0: "0 \<le> u - real ?j" and t1: "u - real ?j \<le> 1" using j by linarith+
    have lo: "0 \<le> (u - real ?j) * (f ! (?j + 1) - f ! ?j)"
      using t0 d by (rule mult_nonneg_nonneg)
    have hi: "(u - real ?j) * (f ! (?j + 1) - f ! ?j) \<le> f ! (?j + 1) - f ! ?j"
      using mult_right_mono[OF t1 d] by simp
    have "f ! ?j \<le> interp_value u f" unfolding mid_eq[OF u] using lo by linarith
    moreover have "interp_value u f \<le> f ! (?j + 1)" unfolding mid_eq[OF u] using hi by linarith
    ultimately show ?thesis using jn by blast
  qed
  have ends: "f ! 0 \<le> interp_value u f \<and> interp_value u f \<le> f ! (?n - 1)" for u
  proof (cases "u \<le> 0")
    case True
    then have "interp_value u f = f ! 0" by (simp add: interp_value_def)
    then show ?thesis using nth_mono[of 0 "?n - 1"] n by simp
  next
    case False
    note pos = this
    show ?thesis
    proof (cases "real (?n - 1) \<le> u")
      case True
      have "interp_value u f = f ! (?n - 1)"
        unfolding interp_value_def if_not_P[OF pos] if_P[OF True] ..
      then show ?thesis using nth_mono[of 0 "?n - 1"] n by simp
    next
      case False
      let ?j = "nat \<lfloor>u\<rfloor>"
      note m = mid[OF pos False]
      have "f ! 0 \<le> f ! ?j" using nth_mono[of 0 ?j] m by simp
      moreover have "?j + 1 \<le> ?n - 1" "?n - 1 < ?n" using m by linarith+
      then have "f ! (?j + 1) \<le> f ! (?n - 1)" by (rule nth_mono)
      ultimately show ?thesis using m by linarith
    qed
  qed
  show ?thesis
  proof (cases "x \<le> 0")
    case True
    then have "interp_value x f = f ! 0" by (simp add: interp_value_def)
    then show ?thesis using ends[of y] by simp
  next
    case False
    note xpos = this
    then have ypos: "\<not> y \<le> 0" using assms(2) by simp
    show ?thesis
    proof (cases "real (?n - 1) \<le> y")
      case True
      have "interp_value y f = f ! (?n - 1)"
        unfolding interp_value_def if_not_P[OF ypos] if_P[OF True] ..
      then show ?thesis using ends[of x] by simp
    next
      case False
      then have xin: "\<not> real (?n - 1) \<le> x" using assms(2) by simp
      let ?jx = "nat \<lfloor>x\<rfloor>" and ?jy = "nat \<lfloor>y\<rfloor>"
      note mx = mid[OF xpos xin] and my = mid[OF ypos False]
      have le: "?jx \<le> ?jy" using assms(2) by (simp add: floor_mono nat_mono)
      show ?thesis
      proof (cases "?jx = ?jy")
        case True
        have d: "0 \<le> f ! (?jy + 1) - f ! ?jy" using nth_mono[of ?jy "?jy + 1"] my by simp
        have "(x - real ?jy) * (f ! (?jy + 1) - f ! ?jy) \<le> (y - real ?jy) * (f ! (?jy + 1) - f ! ?jy)"
          using assms(2) d by (intro mult_right_mono) simp_all
        then show ?thesis unfolding mid_eq[OF xpos xin] mid_eq[OF ypos \<open>\<not> real (?n - 1) \<le> y\<close>] True
          by linarith
      next
        case False
        then have "?jx + 1 \<le> ?jy" using le by simp
        then have "f ! (?jx + 1) \<le> f ! ?jy" using nth_mono[of "?jx + 1" ?jy] my by simp
        then show ?thesis using mx my by linarith
      qed
    qed
  qed
qed


lemma rfftfreq_axis:
  assumes "0 < d"
  shows "sorted (rfftfreq n d)" "length (rfftfreq n d) = n div 2 + 1"
proof -
  show "length (rfftfreq n d) = n div 2 + 1" by (simp add: rfftfreq_def)
  have "real i / (real n * d) \<le> real j / (real n * d)" if "i \<le> j" for i j
    using that assms by (intro divide_right_mono) simp_all
  then show "sorted (rfftfreq n d)"
    by (simp add: rfftfreq_def sorted_iff_nth_mono del: upt_Suc)
qed


lemma bandwidth_Inr:
  assumes "bandwidth f sig = Inr (lo, hi)"
  shows "crossing_indices sig \<noteq> []" "f \<noteq> []"
    "lo = interp_value (Min (crossing sig ` set (crossing_indices sig))) f"
    "hi = interp_value (Max (crossing sig ` set (crossing_indices sig))) f"
proof -
  let ?cs = "map (crossing sig) (crossing_indices sig)"
  show ne: "crossing_indices sig \<noteq> []"
    using assms by (cases "crossing_indices sig = []") (simp_all add: bandwidth_def amin_def)
  then have a: "amin ?cs = Inr (Min (set ?cs))" "amax ?cs = Inr (Max (set ?cs))"
    by (simp_all add: amin_def amax_def)
  show f: "f \<noteq> []"
    using assms by (cases "f = []") (simp_all add: bandwidth_def a interp_def)
  have "bandwidth f sig = Inr (interp_value (Min (set ?cs)) f, interp_value (Max (set ?cs)) f)"
    using f by (simp add: bandwidth_def a interp_def)
  with assms show "lo = interp_value (Min (crossing sig ` set (crossing_indices sig))) f"
    "hi = interp_value (Max (crossing sig ` set (crossing_indices sig))) f"
    by simp_all
qed




lemma bandwidth_ordered:
  assumes "bandwidth f sig = Inr (lo, hi)" "sorted f"
  shows "lo \<le> hi"
proof -
  let ?C = "crossing sig ` set (crossing_indices sig)"
  note r = bandwidth_Inr[OF assms(1)]
  have C: "finite ?C" "?C \<noteq> {}" using r(1) by simp_all
  have "Min ?C \<in> ?C" using C by (rule Min_in)
  then have "Min ?C \<le> Max ?C" using C(1) by (rule Max_ge[rotated])
  then show ?thesis unfolding r(3,4) by (rule interp_value_mono[OF assms(2)])
qed



lemma spectrum_Inr:
  assumes "spectrum f a = Inr (f', a', lo, hi)"
  shows "\<exists>sig. shifted_db a = Inr sig \<and> bandwidth f sig = Inr (lo, hi)" "f' = f" "a' = a"
  using assms by (auto simp: spectrum_def split: sum.splits)


lemma log10_100: "log 10 100 = 2"
proof -
  have "log 10 ((10::real) ^ 2) = real 2 * log 10 10" by (rule log_nat_power) simp
  then show ?thesis by simp
qed

lemma shifted_db_examples:
  "shifted_db single_peak = Inr [-20, 20, -20]"
  "shifted_db late_peak = Inr [-20, -20, 20]"
  "shifted_db peak_at_zero = Inr [20, -20, 0]"
  by (simp_all add: shifted_db_def decibels_def amax_def log10_100
      single_peak_def late_peak_def peak_at_zero_def)

lemma bandwidth_examples:
  "bandwidth axis3 [-20, 20, -20] = Inr (1 / 2, 1 / 2)"
  "bandwidth axis3 [-20, -20, 20] = Inr (3 / 2, 3 / 2)"
  "bandwidth axis3 [20, -20, 0] = Inr (2, 2)"
  by (simp_all add: bandwidth_def crossing_indices_def crossing_def amin_def amax_def
      interp_def interp_value_def axis3_def upt_rec)

lemma spectrum_examples:
  "spectrum axis3 single_peak = Inr (axis3, single_peak, 1 / 2, 1 / 2)"
  "spectrum axis3 late_peak = Inr (axis3, late_peak, 3 / 2, 3 / 2)"
  "spectrum axis3 peak_at_zero = Inr (axis3, peak_at_zero, 2, 2)"
  by (simp_all add: spectrum_def shifted_db_examples bandwidth_examples)








section \<open>The ensemble\<close>

lemma trace_spectra_ordered:
  assumes "trace_spectra f as = Inr rs" "sorted f"
  shows "\<forall>r \<in> set rs. fst (snd (snd r)) \<le> snd (snd (snd r))"
  using assms(1)
proof (induction as arbitrary: rs)
  case Nil
  then show ?case by simp
next
  case (Cons a as)
  from Cons.prems obtain f' amp lo hi peak rest where
    s: "spectrum f a = Inr (f', amp, lo, hi)" and
    t: "trace_spectra f as = Inr rest" and
    rs: "rs = (amp, peak, lo, hi) # rest"
    by (auto split: sum.splits)
  from spectrum_Inr(1)[OF s] obtain sig where "bandwidth f sig = Inr (lo, hi)" by blast
  then have "lo \<le> hi" using assms(2) by (rule bandwidth_ordered)
  with Cons.IH[OF t] rs show ?case by simp
qed

lemma plot_spectrum_Inr:
  assumes "plot_spectrum f amps = Inr r"
  shows "\<exists>rs. trace_spectra f amps = Inr rs \<and> rs \<noteq> [] \<and>
           f_min r = Min (set (map (\<lambda>r. fst (snd (snd r))) rs)) \<and>
           f_max r = Max (set (map (\<lambda>r. snd (snd (snd r))) rs)) \<and>
           normalised_db (fst (last rs)) = Inr (db r) \<and>
           mean_spectrum (map fst rs) = Inr (spec r)"
proof -
  from assms obtain rs sp d lo hi where
    t: "trace_spectra f amps = Inr rs" and m: "mean_spectrum (map fst rs) = Inr sp" and
    n: "normalised_db (fst (last rs)) = Inr d" and
    lo: "amin (map (\<lambda>r. fst (snd (snd r))) rs) = Inr lo" and
    hi: "amax (map (\<lambda>r. snd (snd (snd r))) rs) = Inr hi" and
    r: "r = \<lparr>spec = sp, db = d, f_peak = mean (map (\<lambda>r. fst (snd r)) rs), f_min = lo, f_max = hi\<rparr>"
    by (auto simp: plot_spectrum_def split: sum.splits)
  have ne: "rs \<noteq> []" using m by (auto simp: mean_spectrum_def split: if_splits)
  from lo hi ne have "lo = Min (set (map (\<lambda>r. fst (snd (snd r))) rs))"
    "hi = Max (set (map (\<lambda>r. snd (snd (snd r))) rs))"
    by (simp_all add: amin_def amax_def)
  with t m n ne r show ?thesis by simp
qed

text \<open>
  Claim C9, as amended. Whenever \<open>plot_spectrum\<close> computes its numbers, for positive
  magnitudes on a non-decreasing frequency axis, \<open>f_min \<le> f_max\<close>.
\<close>

theorem band_ends_ordered:
  assumes "plot_spectrum f amps = Inr r" "sorted f"
    and "\<forall>a \<in> set amps. \<forall>x \<in> set a. 0 < x"
  shows "f_min r \<le> f_max r"
proof -
  from plot_spectrum_Inr[OF assms(1)] obtain rs where
    t: "trace_spectra f amps = Inr rs" and ne: "rs \<noteq> []" and
    lo: "f_min r = Min (set (map (\<lambda>r. fst (snd (snd r))) rs))" and
    hi: "f_max r = Max (set (map (\<lambda>r. snd (snd (snd r))) rs))"
    by blast
  from ne have h: "hd rs \<in> set rs" by simp
  have "f_min r \<le> fst (snd (snd (hd rs)))" unfolding lo using h by (intro Min_le) simp_all
  also have "\<dots> \<le> snd (snd (snd (hd rs)))" using trace_spectra_ordered[OF t assms(2)] h by blast
  also have "\<dots> \<le> f_max r" unfolding hi using h by (intro Max_ge) simp_all
  finally show ?thesis .
qed

lemma peak_examples:
  "peak_frequency axis3 single_peak = Inr 1"
  "peak_frequency axis3 late_peak = Inr 2"
  "peak_frequency axis3 peak_at_zero = Inr 0"
  by (simp_all add: peak_frequency_def argmax_def axis3_def single_peak_def late_peak_def
      peak_at_zero_def)

lemma normalised_db_single_peak: "normalised_db single_peak = Inr [-40, 0, -40]"
  by (simp add: normalised_db_def decibels_def amax_def log10_100 single_peak_def)

lemma plot_single_peak:
  "map_sum id f_min (plot_spectrum axis3 [single_peak]) = Inr (1 / 2)"
  "map_sum id f_peak (plot_spectrum axis3 [single_peak]) = Inr 1"
  "map_sum id f_max (plot_spectrum axis3 [single_peak]) = Inr (1 / 2)"
  by (simp_all add: plot_spectrum_def spectrum_examples peak_examples mean_spectrum_def
      normalised_db_single_peak amin_def amax_def mean_def)

lemma log10_10: "log 10 10 = 1"
  by simp

lemma plot_peak_at_zero:
  "map_sum id f_min (plot_spectrum axis3 [peak_at_zero]) = Inr 2"
  "map_sum id f_peak (plot_spectrum axis3 [peak_at_zero]) = Inr 0"
  "map_sum id f_max (plot_spectrum axis3 [peak_at_zero]) = Inr 2"
proof -
  have "normalised_db peak_at_zero = Inr [0, -40, -20]"
    by (simp add: normalised_db_def decibels_def amax_def log10_100 peak_at_zero_def)
  then show "map_sum id f_min (plot_spectrum axis3 [peak_at_zero]) = Inr 2"
  "map_sum id f_peak (plot_spectrum axis3 [peak_at_zero]) = Inr 0"
  "map_sum id f_max (plot_spectrum axis3 [peak_at_zero]) = Inr 2"
    by (simp_all add: plot_spectrum_def spectrum_examples peak_examples mean_spectrum_def
      amin_def amax_def mean_def)
qed

text \<open>
  Claim C9, counterexample. One trace with the magnitudes 1, 100, 1 on the axis 0, 1, 2:
  the only crossing is the rising one at 1/2, so \<open>f_max = 1/2\<close> lies below
  \<open>f_peak = 1\<close>. One trace with the magnitudes 100, 1, 10: the peak is at frequency 0
  and the only crossing at 2, so \<open>f_min = 2\<close> lies above \<open>f_peak = 0\<close>.
\<close>

theorem peak_outside_band:
  "map_sum id f_peak (plot_spectrum axis3 [single_peak]) = Inr 1 \<and>
   map_sum id f_max (plot_spectrum axis3 [single_peak]) = Inr (1 / 2) \<and>
   map_sum id f_min (plot_spectrum axis3 [peak_at_zero]) = Inr 2 \<and>
   map_sum id f_peak (plot_spectrum axis3 [peak_at_zero]) = Inr 0"
  by (simp add: plot_single_peak plot_peak_at_zero)

lemma plot_two_traces:
  "plot_spectrum axis3 [late_peak, single_peak] =
     Inr \<lparr>spec = [1, 101 / 2, 101 / 2], db = [-40, 0, -40],
          f_peak = 3 / 2, f_min = 1 / 2, f_max = 3 / 2\<rparr>"
proof -
  have "mean_spectrum [late_peak, single_peak] = Inr [1, 101 / 2, 101 / 2]"
    by (simp add: mean_spectrum_def mean_def late_peak_def single_peak_def upt_rec)
  then show ?thesis
    by (simp add: plot_spectrum_def spectrum_examples peak_examples
      normalised_db_single_peak amin_def amax_def mean_def)
qed

text \<open>
  Claim C9, witness: two traces with the bands 3/2 to 3/2 and 1/2 to 1/2 give
  \<open>f_min = 1/2\<close> and \<open>f_max = 3/2\<close>.
\<close>

theorem band_ends_ordered_witness:
  "sorted axis3 \<and> Min (set late_peak) = 1 \<and> Min (set single_peak) = 1 \<and>
   map_sum id f_min (plot_spectrum axis3 [late_peak, single_peak]) = Inr (1 / 2) \<and>
   map_sum id f_max (plot_spectrum axis3 [late_peak, single_peak]) = Inr (3 / 2) \<and>
   (1 / 2 :: real) \<le> 3 / 2"
proof -
  have s: "sorted axis3" by (simp add: axis3_def)
  have p: "\<forall>a \<in> set [late_peak, single_peak]. \<forall>x \<in> set a. 0 < x"
    by (simp add: late_peak_def single_peak_def)
  from band_ends_ordered[OF plot_two_traces s p] have "(1 / 2 :: real) \<le> 3 / 2" by simp
  moreover have "Min (set late_peak) = 1" "Min (set single_peak) = 1"
    by (simp_all add: late_peak_def single_peak_def)
  ultimately show ?thesis using s by (simp add: plot_two_traces)
qed

text \<open>
  Claim C3, evaluated where it fails. For the two traces with the magnitudes 1, 1, 100
  and 1, 100, 1 the mean spectrum is 1, 50.5, 50.5, and it is computed; the curve in
  decibels is \<open>-40, 0, -40\<close>, the curve of the last trace alone, and differs from the
  curve of the mean spectrum.
\<close>

theorem curve_of_last_trace:
  "map_sum id db (plot_spectrum axis3 [late_peak, single_peak]) = Inr [-40, 0, -40] \<and>
   normalised_db single_peak = Inr [-40, 0, -40] \<and>
   map_sum id spec (plot_spectrum axis3 [late_peak, single_peak]) = Inr [1, 101 / 2, 101 / 2] \<and>
   ensemble_db_spec [late_peak, single_peak] = normalised_db [1, 101 / 2, 101 / 2] \<and>
   map_sum id db (plot_spectrum axis3 [late_peak, single_peak]) \<noteq>
     ensemble_db_spec [late_peak, single_peak]"
proof -
  have m: "mean_spectrum [late_peak, single_peak] = Inr [1, 101 / 2, 101 / 2]"
    by (simp add: mean_spectrum_def mean_def late_peak_def single_peak_def upt_rec)
  have e: "ensemble_db_spec [late_peak, single_peak] = normalised_db [1, 101 / 2, 101 / 2]"
    by (simp add: ensemble_db_spec_def m)
  have "normalised_db [1, 101 / 2, 101 / 2] \<noteq> Inr [-40, 0, -40]"
    by (auto simp: normalised_db_def decibels_def amax_def)
  with e show ?thesis by (simp add: plot_two_traces normalised_db_single_peak)
qed

end
